theory Spec2Isabelle
  imports Main "HOL-Library.Word"
begin

unbundle bit_operations_syntax

section \<open>Data model\<close>

text \<open>
  The encoder of \<^verbatim>\<open>blugnu/msgpack\<close>.  Bytes are 8-bit words; Go's platform
  \<^verbatim>\<open>int\<close> and \<^verbatim>\<open>uint\<close> are 64 bits wide (the comparisons of
  \<^verbatim>\<open>EncodeInt\<close> against \<^verbatim>\<open>math.MaxUint32\<close> only compile there).
\<close>

type_synonym byte = "8 word"

text \<open>
  Error values: the two sentinels of \<^verbatim>\<open>errors.go\<close> and the errors an
  \<^verbatim>\<open>io.Writer\<close> may return.  A wrapped sentinel (\<^verbatim>\<open>fmt.Errorf("...%w...")\<close>)
  is identified with the sentinel it wraps.
\<close>

datatype error = ErrValueOutOfRange | ErrUnsupportedType | WriterError nat

text \<open>
  A call either returns its \<^verbatim>\<open>error\<close> result (\<open>None\<close> is \<^verbatim>\<open>nil\<close>) or
  panics with a value.
\<close>

datatype outcome = Return "error option" | Panic error

text \<open>
  An \<^verbatim>\<open>io.Writer\<close> is held by reference.  The struct \<^verbatim>\<open>Encoder\<close> has the
  two fields \<^verbatim>\<open>out\<close> and \<^verbatim>\<open>err\<close>.
\<close>

type_synonym writer = nat

record Encoder =
  out :: writer
  err :: "error option"

text \<open>
  The program state outside the call stack: the \<^verbatim>\<open>Encoder\<close> variables that a
  \<^verbatim>\<open>*Encoder\<close> can point to, for every writer the list of byte slices its
  \<^verbatim>\<open>Write\<close> method has been called with so far, and the answer of every writer
  to a call (from its history and the slice offered).
  A writer is an object of its own: its answer depends on what it has been offered, and
  a call changes nothing but its history.
\<close>

record world =
  encoders :: "nat \<Rightarrow> Encoder"
  written :: "writer \<Rightarrow> byte list list"
  respond :: "writer \<Rightarrow> byte list list \<Rightarrow> byte list \<Rightarrow> error option"

text \<open>One call \<^verbatim>\<open>out.Write(p)\<close>; the byte count it returns is ignored by every caller.\<close>

definition sink_write :: "writer \<Rightarrow> byte list \<Rightarrow> world \<Rightarrow> error option \<times> world" where
  "sink_write r p w =
     (respond w r (written w r) p,
      w\<lparr>written := (written w)(r := written w r @ [p])\<rparr>)"

text \<open>
  The dynamic type of an \<^verbatim>\<open>any\<close> argument.  Floats are carried as their IEEE-754
  bit patterns (\<^verbatim>\<open>math.Float32bits\<close>, \<^verbatim>\<open>math.Float64bits\<close>); a string is its
  bytes; \<open>VOther\<close> stands for every type not listed.
\<close>

datatype any =
    VNil
  | VBool bool
  | VInt "64 word"
  | VInt8 "8 word"
  | VInt16 "16 word"
  | VInt32 "32 word"
  | VInt64 "64 word"
  | VUint "64 word"
  | VUint8 "8 word"
  | VUint16 "16 word"
  | VUint32 "32 word"
  | VUint64 "64 word"
  | VFloat32 "32 word"
  | VFloat64 "64 word"
  | VString "byte list"
  | VBytes "byte list"
  | VInts "64 word list"
  | VOther

section \<open>Constants (types.go)\<close>

definition minFixedInt :: "8 word" where "minFixedInt = - 32"
definition maxFixedInt :: "8 word" where "maxFixedInt = 127"
definition maxFixedUint :: "8 word" where "maxFixedUint = 127"

definition atomNil :: byte where "atomNil = 0xc0"
definition atomFalse :: byte where "atomFalse = 0xc2"
definition atomTrue :: byte where "atomTrue = 0xc3"
definition atomEmptyArray :: byte where "atomEmptyArray = 0x90"
definition atomEmptyMap :: byte where "atomEmptyMap = 0x80"

definition maskFixArray :: byte where "maskFixArray = 0x90"
definition maskFixMap :: byte where "maskFixMap = 0x80"
definition maskFixString :: byte where "maskFixString = 0xa0"

definition typeArray16 :: byte where "typeArray16 = 0xdc"
definition typeArray32 :: byte where "typeArray32 = 0xdd"
definition typeBin8 :: byte where "typeBin8 = 0xc4"
definition typeBin16 :: byte where "typeBin16 = 0xc5"
definition typeBin32 :: byte where "typeBin32 = 0xc6"
definition typeFloat32 :: byte where "typeFloat32 = 0xca"
definition typeFloat64 :: byte where "typeFloat64 = 0xcb"
definition typeMap16 :: byte where "typeMap16 = 0xde"
definition typeMap32 :: byte where "typeMap32 = 0xdf"
definition typeInt8 :: byte where "typeInt8 = 0xd0"
definition typeInt16 :: byte where "typeInt16 = 0xd1"
definition typeInt32 :: byte where "typeInt32 = 0xd2"
definition typeInt64 :: byte where "typeInt64 = 0xd3"
definition typeUint8 :: byte where "typeUint8 = 0xcc"
definition typeUint16 :: byte where "typeUint16 = 0xcc"
definition typeUint32 :: byte where "typeUint32 = 0xcd"
definition typeUint64 :: byte where "typeUint64 = 0xce"
definition typeString8 :: byte where "typeString8 = 0xd9"
definition typeString16 :: byte where "typeString16 = 0xda"
definition typeString32 :: byte where "typeString32 = 0xdb"

section \<open>The primitive writer (Encoder.Write)\<close>

text \<open>
  The type switch of \<^verbatim>\<open>Write\<close>: the big-endian bytes of a supported value, \<open>None\<close>
  in the \<^verbatim>\<open>default\<close> branch.  \<^verbatim>\<open>>>\<close> is an arithmetic shift on the signed types.
\<close>

fun wire_bytes :: "any \<Rightarrow> byte list option" where
  "wire_bytes (VUint8 v) = Some [v]"
| "wire_bytes (VBytes v) = Some v"
| "wire_bytes (VInt8 v) = Some [ucast v]"
| "wire_bytes (VInt16 v) = Some [ucast (signed_drop_bit 8 v), ucast v]"
| "wire_bytes (VUint16 v) = Some [ucast (drop_bit 8 v), ucast v]"
| "wire_bytes (VInt32 v) =
     Some [ucast (signed_drop_bit 24 v), ucast (signed_drop_bit 16 v),
           ucast (signed_drop_bit 8 v), ucast v]"
| "wire_bytes (VUint32 v) =
     Some [ucast (drop_bit 24 v), ucast (drop_bit 16 v), ucast (drop_bit 8 v), ucast v]"
| "wire_bytes (VInt64 v) =
     Some [ucast (signed_drop_bit 56 v), ucast (signed_drop_bit 48 v),
           ucast (signed_drop_bit 40 v), ucast (signed_drop_bit 32 v),
           ucast (signed_drop_bit 24 v), ucast (signed_drop_bit 16 v),
           ucast (signed_drop_bit 8 v), ucast v]"
| "wire_bytes (VUint64 v) =
     Some [ucast (drop_bit 56 v), ucast (drop_bit 48 v), ucast (drop_bit 40 v),
           ucast (drop_bit 32 v), ucast (drop_bit 24 v), ucast (drop_bit 16 v),
           ucast (drop_bit 8 v), ucast v]"
| "wire_bytes (VFloat32 b) =
     Some [ucast (drop_bit 24 b), ucast (drop_bit 16 b), ucast (drop_bit 8 b), ucast b]"
| "wire_bytes (VFloat64 b) =
     Some [ucast (drop_bit 56 b), ucast (drop_bit 48 b), ucast (drop_bit 40 b),
           ucast (drop_bit 32 b), ucast (drop_bit 24 b), ucast (drop_bit 16 b),
           ucast (drop_bit 8 b), ucast b]"
| "wire_bytes _ = None"

text \<open>
  \<^verbatim>\<open>func (enc Encoder) Write(b any) error\<close>.  The receiver is a copy of the
  caller's \<^verbatim>\<open>Encoder\<close>: the assignment to \<^verbatim>\<open>enc.err\<close> changes the copy
  \<open>enc'\<close>, which is read for the result and then dropped.
\<close>

definition Write :: "Encoder \<Rightarrow> any \<Rightarrow> world \<Rightarrow> outcome \<times> world" where
  "Write enc b w =
     (if err enc \<noteq> None then (Return (err enc), w)
      else case wire_bytes b of
             None \<Rightarrow> (Panic ErrUnsupportedType, w)
           | Some p \<Rightarrow>
               (let (e, w') = sink_write (out enc) p w;
                    enc' = enc\<lparr>err := e\<rparr>
                in (Return (err enc'), w')))"

text \<open>
  \<^verbatim>\<open>_ = f(); rest\<close>: the result of the first call is discarded, a panic of it
  unwinds.
\<close>

definition and_then :: "outcome \<times> world \<Rightarrow> (world \<Rightarrow> outcome \<times> world) \<Rightarrow> outcome \<times> world" where
  "and_then r k = (case r of (Panic x, w) \<Rightarrow> (Panic x, w) | (Return _, w) \<Rightarrow> k w)"

section \<open>Header encoders\<close>

text \<open>
  The three header writers discard what \<^verbatim>\<open>Write\<close> returns and end with
  \<^verbatim>\<open>return enc.err\<close>, the field of their own receiver copy.  \<^verbatim>\<open>len\<close> is a
  platform \<^verbatim>\<open>int\<close>, compared as a signed number.
\<close>

definition WriteArrayHeader :: "Encoder \<Rightarrow> 64 word \<Rightarrow> world \<Rightarrow> outcome \<times> world" where
  "WriteArrayHeader enc len w =
     (if len = 0 then
        and_then (Write enc (VUint8 atomEmptyArray) w) (\<lambda>w. (Return (err enc), w))
      else if len <s 16 then
        and_then (Write enc (VUint8 (maskFixArray OR ucast len)) w) (\<lambda>w. (Return (err enc), w))
      else if len <s 65536 then
        and_then (Write enc (VUint8 typeArray16) w) (\<lambda>w.
        and_then (Write enc (VUint16 (ucast len)) w) (\<lambda>w. (Return (err enc), w)))
      else
        and_then (Write enc (VUint8 typeArray32) w) (\<lambda>w.
        and_then (Write enc (VUint32 (ucast len)) w) (\<lambda>w. (Return (err enc), w))))"

definition WriteMapHeader :: "Encoder \<Rightarrow> 64 word \<Rightarrow> world \<Rightarrow> outcome \<times> world" where
  "WriteMapHeader enc n w =
     (if n = 0 then
        and_then (Write enc (VUint8 atomEmptyMap) w) (\<lambda>w. (Return (err enc), w))
      else if n <s 16 then
        and_then (Write enc (VUint8 (maskFixMap OR ucast n)) w) (\<lambda>w. (Return (err enc), w))
      else if n <s 65536 then
        and_then (Write enc (VUint8 typeMap16) w) (\<lambda>w.
        and_then (Write enc (VUint16 (ucast n)) w) (\<lambda>w. (Return (err enc), w)))
      else
        and_then (Write enc (VUint8 typeMap32) w) (\<lambda>w.
        and_then (Write enc (VUint32 (ucast n)) w) (\<lambda>w. (Return (err enc), w))))"

definition WriteStringHeader :: "Encoder \<Rightarrow> 64 word \<Rightarrow> world \<Rightarrow> outcome \<times> world" where
  "WriteStringHeader enc len w =
     (if len <s 32 then
        and_then (Write enc (VUint8 (maskFixString OR ucast len)) w) (\<lambda>w. (Return (err enc), w))
      else if len <s 256 then
        and_then (Write enc (VUint8 typeString8) w) (\<lambda>w.
        and_then (Write enc (VUint8 (ucast len)) w) (\<lambda>w. (Return (err enc), w)))
      else if len <s 65536 then
        and_then (Write enc (VUint8 typeString16) w) (\<lambda>w.
        and_then (Write enc (VUint16 (ucast len)) w) (\<lambda>w. (Return (err enc), w)))
      else
        and_then (Write enc (VUint8 typeString32) w) (\<lambda>w.
        and_then (Write enc (VUint32 (ucast len)) w) (\<lambda>w. (Return (err enc), w))))"

section \<open>Scalar encoders\<close>

definition EncodeBool :: "Encoder \<Rightarrow> bool \<Rightarrow> world \<Rightarrow> outcome \<times> world" where
  "EncodeBool enc b w =
     (if b then Write enc (VUint8 atomTrue) w else Write enc (VUint8 atomFalse) w)"

text \<open>\<^verbatim>\<open>EncodeBytes\<close>: \<open>None\<close> is the \<^verbatim>\<open>nil\<close> slice.\<close>

definition EncodeBytes :: "Encoder \<Rightarrow> byte list option \<Rightarrow> world \<Rightarrow> outcome \<times> world" where
  "EncodeBytes enc b w =
     (case b of
        None \<Rightarrow> Write enc (VUint8 atomNil) w
      | Some bs \<Rightarrow>
          if length bs < 256 then
            and_then (Write enc (VUint8 typeBin8) w) (\<lambda>w.
            and_then (Write enc (VUint8 (of_nat (length bs))) w) (\<lambda>w.
            Write enc (VBytes bs) w))
          else if length bs < 65536 then
            and_then (Write enc (VUint8 typeBin16) w) (\<lambda>w.
            and_then (Write enc (VUint16 (of_nat (length bs))) w) (\<lambda>w.
            Write enc (VBytes bs) w))
          else
            and_then (Write enc (VUint8 typeBin32) w) (\<lambda>w.
            and_then (Write enc (VUint32 (of_nat (length bs))) w) (\<lambda>w.
            Write enc (VBytes bs) w)))"

definition EncodeFloat32 :: "Encoder \<Rightarrow> 32 word \<Rightarrow> world \<Rightarrow> outcome \<times> world" where
  "EncodeFloat32 enc f w =
     and_then (Write enc (VUint8 typeFloat32) w) (\<lambda>w. Write enc (VFloat32 f) w)"

definition EncodeFloat64 :: "Encoder \<Rightarrow> 64 word \<Rightarrow> world \<Rightarrow> outcome \<times> world" where
  "EncodeFloat64 enc f w =
     and_then (Write enc (VUint8 typeFloat64) w) (\<lambda>w. Write enc (VFloat64 f) w)"

text \<open>
  \<^verbatim>\<open>EncodeString\<close>: the content goes to the writer through \<^verbatim>\<open>io.WriteString\<close>,
  one call with the bytes of the string, when the header writer returned \<^verbatim>\<open>nil\<close>.
\<close>

definition EncodeString :: "Encoder \<Rightarrow> byte list \<Rightarrow> world \<Rightarrow> outcome \<times> world" where
  "EncodeString enc s w =
     (case WriteStringHeader enc (of_nat (length s)) w of
        (Panic x, w1) \<Rightarrow> (Panic x, w1)
      | (Return (Some e), w1) \<Rightarrow> (Return (err enc), w1)
      | (Return None, w1) \<Rightarrow>
          (let (e, w2) = sink_write (out enc) s w1;
               enc' = enc\<lparr>err := e\<rparr>
           in (Return (err enc'), w2)))"

subsection \<open>The integer family (encoder.int.family.go)\<close>

definition EncodeFixedInt :: "Encoder \<Rightarrow> 64 word \<Rightarrow> world \<Rightarrow> outcome \<times> world" where
  "EncodeFixedInt enc i w =
     (if i <s scast minFixedInt \<or> scast maxFixedInt <s i then (Panic ErrValueOutOfRange, w)
      else Write enc (VUint8 (ucast i)) w)"

definition EncodeInt8 :: "Encoder \<Rightarrow> 8 word \<Rightarrow> world \<Rightarrow> outcome \<times> world" where
  "EncodeInt8 enc i w =
     (if i <s minFixedInt then
        and_then (Write enc (VUint8 typeInt8) w) (\<lambda>w. Write enc (VInt8 i) w)
      else Write enc (VUint8 (ucast i)) w)"

definition EncodeInt16 :: "Encoder \<Rightarrow> 16 word \<Rightarrow> world \<Rightarrow> outcome \<times> world" where
  "EncodeInt16 enc i w =
     (if i <s - 128 then
        and_then (Write enc (VUint8 typeInt16) w) (\<lambda>w. Write enc (VInt16 i) w)
      else if i <s scast minFixedInt then
        and_then (Write enc (VUint8 typeInt8) w) (\<lambda>w. Write enc (VInt8 (ucast i)) w)
      else if i \<le>s scast maxFixedInt then Write enc (VUint8 (ucast i)) w
      else if i \<le>s 255 then
        and_then (Write enc (VUint8 typeUint8) w) (\<lambda>w. Write enc (VUint8 (ucast i)) w)
      else
        and_then (Write enc (VUint8 typeInt16) w) (\<lambda>w. Write enc (VInt16 i) w))"

definition EncodeInt32 :: "Encoder \<Rightarrow> 32 word \<Rightarrow> world \<Rightarrow> outcome \<times> world" where
  "EncodeInt32 enc i w =
     (if i <s - 32768 then
        and_then (Write enc (VUint8 typeInt32) w) (\<lambda>w. Write enc (VInt32 i) w)
      else if i <s - 128 then
        and_then (Write enc (VUint8 typeInt16) w) (\<lambda>w. Write enc (VInt16 (ucast i)) w)
      else if i <s scast minFixedInt then
        and_then (Write enc (VUint8 typeInt8) w) (\<lambda>w. Write enc (VInt8 (ucast i)) w)
      else if i \<le>s scast maxFixedInt then Write enc (VUint8 (ucast i)) w
      else if i \<le>s 255 then
        and_then (Write enc (VUint8 typeUint8) w) (\<lambda>w. Write enc (VUint8 (ucast i)) w)
      else if i \<le>s 65535 then
        and_then (Write enc (VUint8 typeUint16) w) (\<lambda>w. Write enc (VUint16 (ucast i)) w)
      else
        and_then (Write enc (VUint8 typeInt32) w) (\<lambda>w. Write enc (VInt32 i) w))"

definition EncodeInt64 :: "Encoder \<Rightarrow> 64 word \<Rightarrow> world \<Rightarrow> outcome \<times> world" where
  "EncodeInt64 enc i w =
     (if i <s - 2147483648 then
        and_then (Write enc (VUint8 typeInt64) w) (\<lambda>w. Write enc (VInt64 i) w)
      else if i <s - 32768 then
        and_then (Write enc (VUint8 typeInt32) w) (\<lambda>w. Write enc (VInt32 (ucast i)) w)
      else if i <s - 128 then
        and_then (Write enc (VUint8 typeInt16) w) (\<lambda>w. Write enc (VInt16 (ucast i)) w)
      else if i <s scast minFixedInt then
        and_then (Write enc (VUint8 typeInt8) w) (\<lambda>w. Write enc (VInt8 (ucast i)) w)
      else if i \<le>s scast maxFixedInt then Write enc (VUint8 (ucast i)) w
      else if i \<le>s 255 then
        and_then (Write enc (VUint8 typeUint8) w) (\<lambda>w. Write enc (VUint8 (ucast i)) w)
      else if i \<le>s 65535 then
        and_then (Write enc (VUint8 typeUint16) w) (\<lambda>w. Write enc (VUint16 (ucast i)) w)
      else if i \<le>s 4294967295 then
        and_then (Write enc (VUint8 typeUint32) w) (\<lambda>w. Write enc (VUint32 (ucast i)) w)
      else
        and_then (Write enc (VUint8 typeUint64) w) (\<lambda>w. Write enc (VInt64 i) w))"

definition EncodeUint8 :: "Encoder \<Rightarrow> 8 word \<Rightarrow> world \<Rightarrow> outcome \<times> world" where
  "EncodeUint8 enc i w =
     (if i \<le> maxFixedUint then Write enc (VUint8 i) w
      else and_then (Write enc (VUint8 typeUint8) w) (\<lambda>w. Write enc (VUint8 i) w))"

definition EncodeUint16 :: "Encoder \<Rightarrow> 16 word \<Rightarrow> world \<Rightarrow> outcome \<times> world" where
  "EncodeUint16 enc i w =
     (if i \<le> ucast maxFixedUint then Write enc (VUint8 (ucast i)) w
      else if i \<le> 255 then
        and_then (Write enc (VUint8 typeUint8) w) (\<lambda>w. Write enc (VUint8 (ucast i)) w)
      else
        and_then (Write enc (VUint8 typeUint16) w) (\<lambda>w. Write enc (VUint16 i) w))"

definition EncodeUint32 :: "Encoder \<Rightarrow> 32 word \<Rightarrow> world \<Rightarrow> outcome \<times> world" where
  "EncodeUint32 enc i w =
     (if i \<le> ucast maxFixedUint then Write enc (VUint8 (ucast i)) w
      else if i \<le> 255 then
        and_then (Write enc (VUint8 typeUint8) w) (\<lambda>w. Write enc (VUint8 (ucast i)) w)
      else if i \<le> 65535 then
        and_then (Write enc (VUint8 typeUint16) w) (\<lambda>w. Write enc (VUint16 (ucast i)) w)
      else
        and_then (Write enc (VUint8 typeUint32) w) (\<lambda>w. Write enc (VUint32 i) w))"

definition EncodeUint64 :: "Encoder \<Rightarrow> 64 word \<Rightarrow> world \<Rightarrow> outcome \<times> world" where
  "EncodeUint64 enc i w =
     (if i \<le> ucast maxFixedUint then Write enc (VUint8 (ucast i)) w
      else if i \<le> 255 then
        and_then (Write enc (VUint8 typeUint8) w) (\<lambda>w. Write enc (VUint8 (ucast i)) w)
      else if i \<le> 65535 then
        and_then (Write enc (VUint8 typeUint16) w) (\<lambda>w. Write enc (VUint16 (ucast i)) w)
      else if i \<le> 4294967295 then
        and_then (Write enc (VUint8 typeUint32) w) (\<lambda>w. Write enc (VUint32 (ucast i)) w)
      else
        and_then (Write enc (VUint8 typeUint64) w) (\<lambda>w. Write enc (VUint64 i) w))"

definition EncodeInt :: "Encoder \<Rightarrow> 64 word \<Rightarrow> world \<Rightarrow> outcome \<times> world" where
  "EncodeInt enc i w =
     (if i <s - 2147483648 then
        and_then (Write enc (VUint8 typeInt64) w) (\<lambda>w. Write enc (VInt64 i) w)
      else if i <s - 32768 then
        and_then (Write enc (VUint8 typeInt32) w) (\<lambda>w. Write enc (VInt32 (ucast i)) w)
      else if i <s - 128 then
        and_then (Write enc (VUint8 typeInt16) w) (\<lambda>w. Write enc (VInt16 (ucast i)) w)
      else if i <s scast minFixedInt then
        and_then (Write enc (VUint8 typeInt8) w) (\<lambda>w. Write enc (VInt8 (ucast i)) w)
      else if i \<le>s scast maxFixedInt then Write enc (VUint8 (ucast i)) w
      else if i \<le>s 255 then
        and_then (Write enc (VUint8 typeUint8) w) (\<lambda>w. Write enc (VUint8 (ucast i)) w)
      else if i \<le>s 65535 then
        and_then (Write enc (VUint8 typeUint16) w) (\<lambda>w. Write enc (VUint16 (ucast i)) w)
      else if i \<le>s 4294967295 then
        and_then (Write enc (VUint8 typeUint32) w) (\<lambda>w. Write enc (VUint32 (ucast i)) w)
      else
        and_then (Write enc (VUint8 typeUint64) w) (\<lambda>w. Write enc (VInt64 i) w))"

definition EncodeUint :: "Encoder \<Rightarrow> 64 word \<Rightarrow> world \<Rightarrow> outcome \<times> world" where
  "EncodeUint enc i w =
     (if i \<le> ucast maxFixedUint then Write enc (VUint8 (ucast i)) w
      else if i \<le> 255 then
        and_then (Write enc (VUint8 typeUint8) w) (\<lambda>w. Write enc (VUint8 (ucast i)) w)
      else if i \<le> 65535 then
        and_then (Write enc (VUint8 typeUint16) w) (\<lambda>w. Write enc (VUint16 (ucast i)) w)
      else if i \<le> 4294967295 then
        and_then (Write enc (VUint8 typeUint32) w) (\<lambda>w. Write enc (VUint32 (ucast i)) w)
      else
        and_then (Write enc (VUint8 typeUint64) w) (\<lambda>w. Write enc (VUint64 i) w))"

section \<open>Container encoders and dynamic dispatch\<close>

text \<open>
  The loop of \<^verbatim>\<open>EncodeArray\<close> over the items still to be visited.  \<^verbatim>\<open>enc\<close> is
  the parameter of \<^verbatim>\<open>EncodeArray\<close>, a local copy: the loop stores what the item
  encoder returns in its \<^verbatim>\<open>err\<close> field and stops once that is set.  The item
  encoder is a closure; it may write and it may panic.
\<close>

fun array_items ::
  "(Encoder \<Rightarrow> 'a \<Rightarrow> world \<Rightarrow> outcome \<times> world) \<Rightarrow> Encoder \<Rightarrow> 'a list \<Rightarrow> world \<Rightarrow> outcome \<times> world"
where
  "array_items fn enc [] w = (Return (err enc), w)"
| "array_items fn enc (v # vs) w =
     (if err enc \<noteq> None then (Return (err enc), w)
      else case fn enc v w of
             (Panic x, w') \<Rightarrow> (Panic x, w')
           | (Return e, w') \<Rightarrow> array_items fn (enc\<lparr>err := e\<rparr>) vs w')"

text \<open>\<^verbatim>\<open>EncodeArray\<close> once \<^verbatim>\<open>fn\<close> is known not to be \<^verbatim>\<open>nil\<close>.\<close>

definition EncodeArray_with ::
  "(Encoder \<Rightarrow> 'a \<Rightarrow> world \<Rightarrow> outcome \<times> world) \<Rightarrow> Encoder \<Rightarrow> 'a list \<Rightarrow> world \<Rightarrow> outcome \<times> world"
where
  "EncodeArray_with fn enc s w =
     (case WriteArrayHeader enc (of_nat (length s)) w of
        (Panic x, w1) \<Rightarrow> (Panic x, w1)
      | (Return (Some e), w1) \<Rightarrow> (Return (Some e), w1)
      | (Return None, w1) \<Rightarrow> array_items fn enc s w1)"

text \<open>
  \<^verbatim>\<open>Encoder.Encode\<close>: the type switch on the dynamic type.  There is no case for
  \<^verbatim>\<open>float32\<close>, \<^verbatim>\<open>float64\<close> or \<^verbatim>\<open>[]byte\<close>; they reach \<^verbatim>\<open>default\<close>.
\<close>

fun Encode :: "Encoder \<Rightarrow> any \<Rightarrow> world \<Rightarrow> outcome \<times> world" where
  "Encode enc VNil w = Write enc (VUint8 atomNil) w"
| "Encode enc (VBool v) w =
     (if v then Write enc (VUint8 atomTrue) w else Write enc (VUint8 atomFalse) w)"
| "Encode enc (VInt v) w = EncodeInt enc v w"
| "Encode enc (VInt8 v) w = EncodeInt8 enc v w"
| "Encode enc (VInt16 v) w = EncodeInt16 enc v w"
| "Encode enc (VInt32 v) w = EncodeInt32 enc v w"
| "Encode enc (VInt64 v) w = EncodeInt64 enc v w"
| "Encode enc (VUint v) w = EncodeUint enc v w"
| "Encode enc (VUint8 v) w = EncodeUint8 enc v w"
| "Encode enc (VUint16 v) w = EncodeUint16 enc v w"
| "Encode enc (VUint32 v) w = EncodeUint32 enc v w"
| "Encode enc (VUint64 v) w = EncodeUint64 enc v w"
| "Encode enc (VInts v) w = EncodeArray_with (\<lambda>enc v. EncodeInt enc v) enc v w"
| "Encode enc (VString v) w = EncodeString enc v w"
| "Encode enc _ w = (Panic ErrUnsupportedType, w)"

text \<open>
  \<^verbatim>\<open>EncodeArray[T]\<close>.  \<open>fn = None\<close> is the \<^verbatim>\<open>nil\<close> function, replaced by
  \<^verbatim>\<open>enc.Encode(v)\<close>; \<open>box\<close> is the conversion of a \<^verbatim>\<open>T\<close> to \<^verbatim>\<open>any\<close>.
\<close>

definition EncodeArray ::
  "('a \<Rightarrow> any) \<Rightarrow> Encoder \<Rightarrow> 'a list \<Rightarrow> (Encoder \<Rightarrow> 'a \<Rightarrow> world \<Rightarrow> outcome \<times> world) option
     \<Rightarrow> world \<Rightarrow> outcome \<times> world"
where
  "EncodeArray box enc s fn w =
     EncodeArray_with (case fn of None \<Rightarrow> (\<lambda>enc v. Encode enc (box v)) | Some f \<Rightarrow> f) enc s w"

text \<open>
  \<^verbatim>\<open>EncodeMap[K, V]\<close>.  The map is given as the list of its entries in the order in
  which \<^verbatim>\<open>range\<close> visits them.
\<close>

fun map_items ::
  "(Encoder \<Rightarrow> 'k \<Rightarrow> 'v \<Rightarrow> world \<Rightarrow> outcome \<times> world) \<Rightarrow> Encoder \<Rightarrow> ('k \<times> 'v) list \<Rightarrow> world
     \<Rightarrow> outcome \<times> world"
where
  "map_items fn enc [] w = (Return (err enc), w)"
| "map_items fn enc ((k, v) # kvs) w =
     (if err enc \<noteq> None then (Return (err enc), w)
      else case fn enc k v w of
             (Panic x, w') \<Rightarrow> (Panic x, w')
           | (Return e, w') \<Rightarrow> map_items fn (enc\<lparr>err := e\<rparr>) kvs w')"

definition EncodeMap ::
  "('k \<Rightarrow> any) \<Rightarrow> ('v \<Rightarrow> any) \<Rightarrow> Encoder \<Rightarrow> ('k \<times> 'v) list
     \<Rightarrow> (Encoder \<Rightarrow> 'k \<Rightarrow> 'v \<Rightarrow> world \<Rightarrow> outcome \<times> world) option \<Rightarrow> world \<Rightarrow> outcome \<times> world"
where
  "EncodeMap boxk boxv enc m fn w =
     (case WriteMapHeader enc (of_nat (length m)) w of
        (Panic x, w1) \<Rightarrow> (Panic x, w1)
      | (Return (Some e), w1) \<Rightarrow> (Return (Some e), w1)
      | (Return None, w1) \<Rightarrow>
          map_items
            (case fn of
               None \<Rightarrow> (\<lambda>enc k v w. and_then (Encode enc (boxk k) w) (\<lambda>w. Encode enc (boxv v) w))
             | Some f \<Rightarrow> f)
            enc m w1)"

section \<open>Session controls (pointer receivers)\<close>

definition NewEncoder :: "writer \<Rightarrow> Encoder" where
  "NewEncoder o' = \<lparr>out = o', err = None\<rparr>"

text \<open>A \<^verbatim>\<open>*Encoder\<close> is the index \<open>p\<close> of an \<^verbatim>\<open>Encoder\<close> variable of the state.\<close>

definition ResetError :: "nat \<Rightarrow> world \<Rightarrow> error option \<times> world" where
  "ResetError p w =
     (err (encoders w p), w\<lparr>encoders := (encoders w)(p := (encoders w p)\<lparr>err := None\<rparr>)\<rparr>)"

definition SetWriter :: "nat \<Rightarrow> writer \<Rightarrow> world \<Rightarrow> world" where
  "SetWriter p o' w = w\<lparr>encoders := (encoders w)(p := (encoders w p)\<lparr>out := o'\<rparr>)\<rparr>"

text \<open>
  \<^verbatim>\<open>Using\<close>: \<^verbatim>\<open>fn\<close> is a closure without parameters, run on the state in which the
  encoder already writes to \<^verbatim>\<open>dest\<close>.  The deferred function restores \<^verbatim>\<open>out\<close>
  when \<^verbatim>\<open>Using\<close> returns and when \<^verbatim>\<open>fn\<close> panics; the result \<^verbatim>\<open>enc.err\<close> is
  read before it runs.
\<close>

definition Using :: "nat \<Rightarrow> writer \<Rightarrow> (world \<Rightarrow> outcome \<times> world) \<Rightarrow> world \<Rightarrow> outcome \<times> world" where
  "Using p dest fn w =
     (let og = out (encoders w p);
          w1 = SetWriter p dest w
      in case fn w1 of
           (Panic x, w2) \<Rightarrow> (Panic x, SetWriter p og w2)
         | (Return e, w2) \<Rightarrow>
             (let w3 = w2\<lparr>encoders := (encoders w2)(p := (encoders w2 p)\<lparr>err := e\<rparr>)\<rparr>
              in (Return (err (encoders w3 p)), SetWriter p og w3)))"

section \<open>Concrete states\<close>

text \<open>
  Three states used to run the encoder: every variable holds a new encoder on writer 0 and
  no writer has been written to.  In \<open>accepting\<close> every write succeeds, in \<open>rejecting\<close>
  every write fails, and in \<open>flaky\<close> the first write to a writer fails and the later
  ones succeed.
\<close>

definition accepting :: world where
  "accepting = \<lparr>encoders = (\<lambda>_. NewEncoder 0), written = (\<lambda>_. []), respond = (\<lambda>_ _ _. None)\<rparr>"

definition rejecting :: world where
  "rejecting =
     \<lparr>encoders = (\<lambda>_. NewEncoder 0), written = (\<lambda>_. []),
      respond = (\<lambda>_ _ _. Some (WriterError 1))\<rparr>"

definition flaky :: world where
  "flaky =
     \<lparr>encoders = (\<lambda>_. NewEncoder 0), written = (\<lambda>_. []),
      respond = (\<lambda>_ h _. if h = [] then Some (WriterError 1) else None)\<rparr>"

text \<open>
  The bytes an operation sends to the writer of a new encoder when every write
  succeeds.
\<close>

definition emitted :: "(Encoder \<Rightarrow> world \<Rightarrow> outcome \<times> world) \<Rightarrow> byte list" where
  "emitted op = concat (written (snd (op (NewEncoder 0) accepting)) 0)"

section \<open>The wire format, from the specification\<close>

text \<open>Big-endian reading of a byte sequence.\<close>

definition be_nat :: "byte list \<Rightarrow> nat" where
  "be_nat bs = foldl (\<lambda>acc b. acc * 256 + unat b) 0 bs"

text \<open>
  The header table of the specification (section 4.2), for a length \<open>n\<close>: array, map and
  string headers with the tag and the big-endian length.
\<close>

definition array_header :: "nat \<Rightarrow> byte list" where
  "array_header n =
     (if n \<le> 15 then [0x90 OR of_nat n]
      else if n \<le> 65535 then [0xdc, of_nat (n div 256), of_nat n]
      else [0xdd, of_nat (n div 16777216), of_nat (n div 65536), of_nat (n div 256), of_nat n])"

definition map_header :: "nat \<Rightarrow> byte list" where
  "map_header n =
     (if n \<le> 15 then [0x80 OR of_nat n]
      else if n \<le> 65535 then [0xde, of_nat (n div 256), of_nat n]
      else [0xdf, of_nat (n div 16777216), of_nat (n div 65536), of_nat (n div 256), of_nat n])"

definition string_header :: "nat \<Rightarrow> byte list" where
  "string_header n =
     (if n \<le> 31 then [0xa0 OR of_nat n]
      else if n \<le> 255 then [0xd9, of_nat n]
      else if n \<le> 65535 then [0xda, of_nat (n div 256), of_nat n]
      else [0xdb, of_nat (n div 16777216), of_nat (n div 65536), of_nat (n div 256), of_nat n])"

text \<open>Reading a header back: the length it declares, \<open>None\<close> when it is not such a header.\<close>

fun decode_array_header :: "byte list \<Rightarrow> nat option" where
  "decode_array_header [t] = (if t AND 0xf0 = 0x90 then Some (unat (t AND 0x0f)) else None)"
| "decode_array_header [t, a, b] = (if t = 0xdc then Some (be_nat [a, b]) else None)"
| "decode_array_header [t, a, b, c, d] = (if t = 0xdd then Some (be_nat [a, b, c, d]) else None)"
| "decode_array_header _ = None"

fun decode_map_header :: "byte list \<Rightarrow> nat option" where
  "decode_map_header [t] = (if t AND 0xf0 = 0x80 then Some (unat (t AND 0x0f)) else None)"
| "decode_map_header [t, a, b] = (if t = 0xde then Some (be_nat [a, b]) else None)"
| "decode_map_header [t, a, b, c, d] = (if t = 0xdf then Some (be_nat [a, b, c, d]) else None)"
| "decode_map_header _ = None"

fun decode_string_header :: "byte list \<Rightarrow> nat option" where
  "decode_string_header [t] = (if t AND 0xe0 = 0xa0 then Some (unat (t AND 0x1f)) else None)"
| "decode_string_header [t, a] = (if t = 0xd9 then Some (be_nat [a]) else None)"
| "decode_string_header [t, a, b] = (if t = 0xda then Some (be_nat [a, b]) else None)"
| "decode_string_header [t, a, b, c, d] = (if t = 0xdb then Some (be_nat [a, b, c, d]) else None)"
| "decode_string_header _ = None"




text \<open>
  The value of a single-byte fixint: \<^verbatim>\<open>0x00..0x7f\<close> is 0..127 and
  \<^verbatim>\<open>0xe0..0xff\<close> is -32..-1.
\<close>

definition fixint_value :: "byte \<Rightarrow> int option" where
  "fixint_value b = (if b \<le> 0x7f then Some (uint b) else if 0xe0 \<le> b then Some (sint b) else None)"

text \<open>The dynamic types with a case in the type switch of \<^verbatim>\<open>Encode\<close>.\<close>

fun supported :: "any \<Rightarrow> bool" where
  "supported (VFloat32 _) = False"
| "supported (VFloat64 _) = False"
| "supported (VBytes _) = False"
| "supported VOther = False"
| "supported _ = True"

section \<open>Basic facts\<close>

lemmas consts_defs =
  minFixedInt_def maxFixedInt_def maxFixedUint_def
  atomNil_def atomFalse_def atomTrue_def atomEmptyArray_def atomEmptyMap_def
  maskFixArray_def maskFixMap_def maskFixString_def
  typeArray16_def typeArray32_def typeBin8_def typeBin16_def typeBin32_def
  typeFloat32_def typeFloat64_def typeMap16_def typeMap32_def
  typeInt8_def typeInt16_def typeInt32_def typeInt64_def
  typeUint8_def typeUint16_def typeUint32_def typeUint64_def
  typeString8_def typeString16_def typeString32_def

lemma and_then_Return [simp]: "and_then (Return e, w) k = k w"
  by (simp add: and_then_def)

lemma and_then_Panic [simp]: "and_then (Panic x, w) k = (Panic x, w)"
  by (simp add: and_then_def)

lemma Write_sticky [simp]: "err enc = Some e \<Longrightarrow> Write enc b w = (Return (Some e), w)"
  by (simp add: Write_def)

subsection \<open>No encoding operation changes an encoder variable\<close>

lemma Write_encoders [simp]: "encoders (snd (Write enc b w)) = encoders w"
  by (simp add: Write_def sink_write_def split: option.split)

lemma and_then_encoders:
  "encoders (snd r) = E \<Longrightarrow> (\<And>w. encoders w = E \<Longrightarrow> encoders (snd (k w)) = E) \<Longrightarrow>
   encoders (snd (and_then r k)) = E"
  by (cases r; cases "fst r") (auto simp: and_then_def)

lemma WriteArrayHeader_encoders [simp]: "encoders (snd (WriteArrayHeader enc n w)) = encoders w"
  unfolding WriteArrayHeader_def by (auto intro!: and_then_encoders)

lemma WriteMapHeader_encoders [simp]: "encoders (snd (WriteMapHeader enc n w)) = encoders w"
  unfolding WriteMapHeader_def by (auto intro!: and_then_encoders)

lemma WriteStringHeader_encoders [simp]: "encoders (snd (WriteStringHeader enc n w)) = encoders w"
  unfolding WriteStringHeader_def by (auto intro!: and_then_encoders)

lemma EncodeBool_encoders [simp]: "encoders (snd (EncodeBool enc b w)) = encoders w"
  unfolding EncodeBool_def by simp

lemma EncodeBytes_encoders [simp]: "encoders (snd (EncodeBytes enc b w)) = encoders w"
  unfolding EncodeBytes_def by (auto intro!: and_then_encoders split: option.split)

lemma EncodeFloat32_encoders [simp]: "encoders (snd (EncodeFloat32 enc f w)) = encoders w"
  unfolding EncodeFloat32_def by (auto intro!: and_then_encoders)

lemma EncodeFloat64_encoders [simp]: "encoders (snd (EncodeFloat64 enc f w)) = encoders w"
  unfolding EncodeFloat64_def by (auto intro!: and_then_encoders)

lemma EncodeString_encoders [simp]: "encoders (snd (EncodeString enc s w)) = encoders w"
proof -
  have "encoders (snd (WriteStringHeader enc (of_nat (length s)) w)) = encoders w" by simp
  then show ?thesis
    unfolding EncodeString_def
    by (cases "WriteStringHeader enc (of_nat (length s)) w")
       (auto simp: sink_write_def split: outcome.split option.split)
qed

lemma EncodeFixedInt_encoders [simp]: "encoders (snd (EncodeFixedInt enc i w)) = encoders w"
  unfolding EncodeFixedInt_def by simp

lemma EncodeInt8_encoders [simp]: "encoders (snd (EncodeInt8 enc i w)) = encoders w"
  unfolding EncodeInt8_def by (auto intro!: and_then_encoders)

lemma EncodeInt16_encoders [simp]: "encoders (snd (EncodeInt16 enc i w)) = encoders w"
  unfolding EncodeInt16_def by (auto intro!: and_then_encoders)

lemma EncodeInt32_encoders [simp]: "encoders (snd (EncodeInt32 enc i w)) = encoders w"
  unfolding EncodeInt32_def by (auto intro!: and_then_encoders)

lemma EncodeInt64_encoders [simp]: "encoders (snd (EncodeInt64 enc i w)) = encoders w"
  unfolding EncodeInt64_def by (auto intro!: and_then_encoders)

lemma EncodeInt_encoders [simp]: "encoders (snd (EncodeInt enc i w)) = encoders w"
  unfolding EncodeInt_def by (auto intro!: and_then_encoders)

lemma EncodeUint8_encoders [simp]: "encoders (snd (EncodeUint8 enc i w)) = encoders w"
  unfolding EncodeUint8_def by (auto intro!: and_then_encoders)

lemma EncodeUint16_encoders [simp]: "encoders (snd (EncodeUint16 enc i w)) = encoders w"
  unfolding EncodeUint16_def by (auto intro!: and_then_encoders)

lemma EncodeUint32_encoders [simp]: "encoders (snd (EncodeUint32 enc i w)) = encoders w"
  unfolding EncodeUint32_def by (auto intro!: and_then_encoders)

lemma EncodeUint64_encoders [simp]: "encoders (snd (EncodeUint64 enc i w)) = encoders w"
  unfolding EncodeUint64_def by (auto intro!: and_then_encoders)

lemma EncodeUint_encoders [simp]: "encoders (snd (EncodeUint enc i w)) = encoders w"
  unfolding EncodeUint_def by (auto intro!: and_then_encoders)

lemma array_items_encoders:
  "(\<And>e v w. encoders (snd (fn e v w)) = encoders w) \<Longrightarrow>
   encoders (snd (array_items fn enc s w)) = encoders w"
proof (induction s arbitrary: enc w)
  case Nil
  then show ?case by simp
next
  case (Cons v vs)
  have step: "encoders (snd (fn enc v w)) = encoders w" by (rule Cons.prems)
  show ?case
  proof (cases "fn enc v w")
    case (Pair r w')
    with step have w': "encoders w' = encoders w" by simp
    show ?thesis
    proof (cases r)
      case (Return e)
      have "encoders (snd (array_items fn (enc\<lparr>err := e\<rparr>) vs w')) = encoders w'"
        by (rule Cons.IH) (rule Cons.prems)
      with Pair Return w' show ?thesis by simp
    next
      case (Panic x)
      with Pair w' show ?thesis by simp
    qed
  qed
qed

lemma EncodeArray_with_encoders:
  assumes "\<And>e v w. encoders (snd (fn e v w)) = encoders w"
  shows "encoders (snd (EncodeArray_with fn enc s w)) = encoders w"
proof -
  have h: "encoders (snd (WriteArrayHeader enc (of_nat (length s)) w)) = encoders w" by simp
  show ?thesis
  proof (cases "WriteArrayHeader enc (of_nat (length s)) w")
    case (Pair r w1)
    with h have w1: "encoders w1 = encoders w" by simp
    have "encoders (snd (array_items fn enc s w1)) = encoders w1"
      by (rule array_items_encoders) (rule assms)
    with Pair w1 show ?thesis
      by (simp add: EncodeArray_with_def split: outcome.split option.split)
  qed
qed

lemma Encode_encoders [simp]: "encoders (snd (Encode enc v w)) = encoders w"
  by (cases v) (simp_all add: EncodeArray_with_encoders)

lemma map_items_encoders:
  "(\<And>e k v w. encoders (snd (fn e k v w)) = encoders w) \<Longrightarrow>
   encoders (snd (map_items fn enc m w)) = encoders w"
proof (induction m arbitrary: enc w)
  case Nil
  then show ?case by simp
next
  case (Cons kv kvs)
  obtain k v where kv: "kv = (k, v)" by (cases kv)
  have step: "encoders (snd (fn enc k v w)) = encoders w" by (rule Cons.prems)
  show ?case
  proof (cases "fn enc k v w")
    case (Pair r w')
    with step have w': "encoders w' = encoders w" by simp
    show ?thesis
    proof (cases r)
      case (Return e)
      have "encoders (snd (map_items fn (enc\<lparr>err := e\<rparr>) kvs w')) = encoders w'"
        by (rule Cons.IH) (rule Cons.prems)
      with Pair Return w' kv show ?thesis by simp
    next
      case (Panic x)
      with Pair w' kv show ?thesis by simp
    qed
  qed
qed

lemma EncodeArray_encoders:
  assumes "\<And>f e v w. fn = Some f \<Longrightarrow> encoders (snd (f e v w)) = encoders w"
  shows "encoders (snd (EncodeArray box enc s fn w)) = encoders w"
  unfolding EncodeArray_def
  by (rule EncodeArray_with_encoders) (cases fn; simp add: assms)

lemma EncodeMap_encoders:
  assumes "\<And>f e k v w. fn = Some f \<Longrightarrow> encoders (snd (f e k v w)) = encoders w"
  shows "encoders (snd (EncodeMap boxk boxv enc m fn w)) = encoders w"
proof -
  let ?f = "case fn of
               None \<Rightarrow> (\<lambda>enc k v w. and_then (Encode enc (boxk k) w) (\<lambda>w. Encode enc (boxv v) w))
             | Some f \<Rightarrow> f"
  have f: "\<And>e k v w. encoders (snd (?f e k v w)) = encoders w"
    by (cases fn) (auto intro!: and_then_encoders simp: assms)
  have h: "encoders (snd (WriteMapHeader enc (of_nat (length m)) w)) = encoders w" by simp
  show ?thesis
  proof (cases "WriteMapHeader enc (of_nat (length m)) w")
    case (Pair r w1)
    with h have w1: "encoders w1 = encoders w" by simp
    have "encoders (snd (map_items ?f enc m w1)) = encoders w1"
      by (rule map_items_encoders) (rule f)
    with Pair w1 show ?thesis
      by (cases fn) (auto simp: EncodeMap_def split: outcome.split option.split)
  qed
qed

lemma EncodeArray_None_encoders [simp]:
  "encoders (snd (EncodeArray box enc xs None w)) = encoders w"
  by (rule EncodeArray_encoders) simp

lemma EncodeArray_Some_encoders:
  "\<forall>e x w. encoders (snd (f e x w)) = encoders w \<Longrightarrow>
   encoders (snd (EncodeArray box enc xs (Some f) w)) = encoders w"
  by (rule EncodeArray_encoders) simp

lemma EncodeMap_None_encoders [simp]:
  "encoders (snd (EncodeMap boxk boxv enc m None w)) = encoders w"
  by (rule EncodeMap_encoders) simp

lemma EncodeMap_Some_encoders:
  "\<forall>e k x w. encoders (snd (g e k x w)) = encoders w \<Longrightarrow>
   encoders (snd (EncodeMap boxk boxv enc m (Some g) w)) = encoders w"
  by (rule EncodeMap_encoders) simp

subsection \<open>Operations on an encoder with its error set\<close>

lemmas int_family_defs =
  EncodeInt_def EncodeInt8_def EncodeInt16_def EncodeInt32_def EncodeInt64_def
  EncodeUint_def EncodeUint8_def EncodeUint16_def EncodeUint32_def EncodeUint64_def

lemma sticky_headers:
  assumes "err enc = Some e"
  shows "WriteArrayHeader enc n w = (Return (Some e), w)"
    and "WriteMapHeader enc n w = (Return (Some e), w)"
    and "WriteStringHeader enc n w = (Return (Some e), w)"
  using assms by (simp_all add: WriteArrayHeader_def WriteMapHeader_def WriteStringHeader_def)

lemma sticky_scalars:
  assumes "err enc = Some e"
  shows "EncodeBool enc t w = (Return (Some e), w)"
    and "EncodeBytes enc bs w = (Return (Some e), w)"
    and "EncodeFloat32 enc f32 w = (Return (Some e), w)"
    and "EncodeFloat64 enc f64 w = (Return (Some e), w)"
    and "EncodeString enc s w = (Return (Some e), w)"
  using assms
  by (simp_all add: EncodeBool_def EncodeBytes_def EncodeFloat32_def EncodeFloat64_def
      EncodeString_def sticky_headers split: option.split)

lemma sticky_ints:
  assumes "err enc = Some e"
  shows "EncodeInt enc i w = (Return (Some e), w)"
    and "EncodeInt8 enc ib w = (Return (Some e), w)"
    and "EncodeInt16 enc ih w = (Return (Some e), w)"
    and "EncodeInt32 enc iw w = (Return (Some e), w)"
    and "EncodeInt64 enc i w = (Return (Some e), w)"
    and "EncodeUint enc i w = (Return (Some e), w)"
    and "EncodeUint8 enc ib w = (Return (Some e), w)"
    and "EncodeUint16 enc ih w = (Return (Some e), w)"
    and "EncodeUint32 enc iw w = (Return (Some e), w)"
    and "EncodeUint64 enc i w = (Return (Some e), w)"
  using assms by (simp_all add: int_family_defs)

lemma sticky_EncodeArray_with:
  "err enc = Some e \<Longrightarrow> EncodeArray_with fn enc s w = (Return (Some e), w)"
  by (simp add: EncodeArray_with_def sticky_headers)

lemma sticky_Encode:
  "err enc = Some e \<Longrightarrow>
   Encode enc v w = (if supported v then (Return (Some e), w) else (Panic ErrUnsupportedType, w))"
  by (cases v) (simp_all add: sticky_ints sticky_scalars sticky_EncodeArray_with)

lemma sticky_EncodeFixedInt:
  "err enc = Some e \<Longrightarrow>
   EncodeFixedInt enc i w =
     (if - 32 \<le> sint i \<and> sint i \<le> 127 then (Return (Some e), w)
      else (Panic ErrValueOutOfRange, w))"
  by (auto simp: EncodeFixedInt_def consts_defs word_sless_alt)

subsection \<open>Single-byte integers\<close>

lemma fixint_value_of_int:
  assumes "- 32 \<le> k" "k \<le> 127"
  shows "fixint_value (word_of_int k) = Some k"
proof (cases "0 \<le> k")
  case True
  with assms have "uint (word_of_int k :: 8 word) = k"
    by (simp add: uint_word_of_int take_bit_eq_mod)
  with True assms show ?thesis
    by (simp add: fixint_value_def word_le_def)
next
  case False
  with assms have "(k + 256) mod 256 = k + 256"
    by (intro mod_pos_pos_trivial) simp_all
  then have a: "uint (word_of_int k :: 8 word) = k + 256"
    by (simp add: uint_word_of_int take_bit_eq_mod)
  from False assms have b: "sint (word_of_int k :: 8 word) = k"
    by (simp add: sint_sbintrunc' signed_take_bit_int_eq_self)
  from a b False assms show ?thesis
    by (simp add: fixint_value_def word_le_def)
qed

lemma fixint_value_in_range:
  assumes "- 32 \<le> sint (i :: 64 word)" "sint i \<le> 127"
  shows "fixint_value (ucast i) = Some (sint i)"
proof -
  have "(ucast i :: 8 word) = word_of_int (sint i)"
    by transfer (simp add: take_bit_signed_take_bit min_def)
  then show ?thesis
    using fixint_value_of_int [OF assms] by (simp del: of_int_sint)
qed

subsection \<open>Headers and their lengths\<close>

lemma upto15: "k \<le> 15 \<Longrightarrow> k \<in> {0, 1, 2, 3, 4, 5, 6, 7, 8, 9, 10, 11, 12, 13, 14, 15 :: nat}"
  by (simp only: insert_iff empty_iff) arith

lemma upto31:
  "k \<le> 31 \<Longrightarrow> k \<in> {0, 1, 2, 3, 4, 5, 6, 7, 8, 9, 10, 11, 12, 13, 14, 15, 16, 17, 18, 19, 20,
     21, 22, 23, 24, 25, 26, 27, 28, 29, 30, 31 :: nat}"
  by (simp only: insert_iff empty_iff) arith

lemma array_nibble:
  assumes "k \<le> 15"
  shows "((0x90 OR of_nat k :: byte) AND 0xf0 = 0x90) \<and> unat ((0x90 OR of_nat k :: byte) AND 0x0f) = k"
  using upto15 [OF assms] by (elim insertE emptyE) simp_all

lemma map_nibble:
  assumes "k \<le> 15"
  shows "((0x80 OR of_nat k :: byte) AND 0xf0 = 0x80) \<and> unat ((0x80 OR of_nat k :: byte) AND 0x0f) = k"
  using upto15 [OF assms] by (elim insertE emptyE) simp_all

lemma string_low_bits:
  assumes "k \<le> 31"
  shows "((0xa0 OR of_nat k :: byte) AND 0xe0 = 0xa0) \<and> unat ((0xa0 OR of_nat k :: byte) AND 0x1f) = k"
  using upto31 [OF assms] by (elim insertE emptyE) simp_all

lemma be1: "k \<le> 255 \<Longrightarrow> be_nat [of_nat k] = k"
  by (simp add: be_nat_def unat_of_nat)

lemma be2: "k \<le> 65535 \<Longrightarrow> be_nat [of_nat (k div 256), of_nat k] = k"
  by (simp add: be_nat_def unat_of_nat)

lemma be4:
  assumes "k < 4294967296"
  shows "be_nat [of_nat (k div 16777216), of_nat (k div 65536), of_nat (k div 256), of_nat k] = k"
proof -
  define a where "a = k div 256"
  define b where "b = a div 256"
  define c where "c = b div 256"
  define km where "km = k mod 256"
  define am where "am = a mod 256"
  define bm where "bm = b mod 256"
  have k: "k = 256 * a + km" by (simp add: a_def km_def)
  have a: "a = 256 * b + am" by (simp add: b_def am_def)
  have b: "b = 256 * c + bm" by (simp add: c_def bm_def)
  have b': "k div 65536 = b" by (simp add: a_def b_def div_mult2_eq)
  have c': "k div 16777216 = c" by (simp add: a_def b_def c_def div_mult2_eq)
  from assms have "c < 256" by (simp add: c' [symmetric])
  then have "be_nat [of_nat c, of_nat b, of_nat a, of_nat k] =
      ((c * 256 + bm) * 256 + am) * 256 + km"
    by (simp add: be_nat_def unat_of_nat km_def am_def bm_def)
  also have "\<dots> = 256 * (256 * (256 * c + bm) + am) + km" by (simp add: algebra_simps)
  also have "\<dots> = k" by (simp only: b [symmetric] a [symmetric] k [symmetric])
  finally show ?thesis by (simp add: a_def [symmetric] b' c')
qed

lemma decode_array_header_roundtrip:
  "k < 4294967296 \<Longrightarrow> decode_array_header (array_header k) = Some k"
  by (simp add: array_header_def array_nibble be2 be4)

lemma decode_map_header_roundtrip:
  "k < 4294967296 \<Longrightarrow> decode_map_header (map_header k) = Some k"
  by (simp add: map_header_def map_nibble be2 be4)

lemma decode_string_header_roundtrip:
  "k < 4294967296 \<Longrightarrow> decode_string_header (string_header k) = Some k"
  by (simp add: string_header_def string_low_bits be1 be2 be4)

lemma nonneg_sint_unat:
  assumes "0 \<le> sint (n :: 64 word)"
  shows "nat (sint n) = unat n"
proof -
  have "sint n < 2 ^ 64" using sint_lt [of n] by simp
  with assms have "take_bit 64 (sint n) = sint n" by (simp add: take_bit_int_eq_self)
  then have "uint n = sint n" using uint_sint [of n] by simp
  then show ?thesis by (simp flip: nat_uint_eq)
qed

lemma byte0: "(of_nat (unat (n :: 64 word)) :: byte) = ucast n"
  by simp

lemma byte1: "(of_nat (unat (n :: 64 word) div 256) :: byte) = ucast (drop_bit 8 n)"
proof -
  have "unat n div 256 = unat (drop_bit 8 n)" by (simp add: drop_bit_eq_div unat_div)
  then show ?thesis by (simp only: of_nat_unat)
qed

lemma byte2: "(of_nat (unat (n :: 64 word) div 65536) :: byte) = ucast (drop_bit 16 n)"
proof -
  have "unat n div 65536 = unat (drop_bit 16 n)" by (simp add: drop_bit_eq_div unat_div)
  then show ?thesis by (simp only: of_nat_unat)
qed

lemma byte3: "(of_nat (unat (n :: 64 word) div 16777216) :: byte) = ucast (drop_bit 24 n)"
proof -
  have "unat n div 16777216 = unat (drop_bit 24 n)" by (simp add: drop_bit_eq_div unat_div)
  then show ?thesis by (simp only: of_nat_unat)
qed

lemma via16: "(ucast (drop_bit 8 (ucast (n :: 64 word) :: 16 word)) :: byte) = ucast (drop_bit 8 n)"
  by (rule bit_word_eqI) (auto simp: bit_simps)

lemma via16_0: "(ucast (ucast (n :: 64 word) :: 16 word) :: byte) = ucast n"
  by (rule bit_word_eqI) (auto simp: bit_simps)

lemma via32:
  "(ucast (drop_bit 8 (ucast (n :: 64 word) :: 32 word)) :: byte) = ucast (drop_bit 8 n)"
  "(ucast (drop_bit 16 (ucast (n :: 64 word) :: 32 word)) :: byte) = ucast (drop_bit 16 n)"
  "(ucast (drop_bit 24 (ucast (n :: 64 word) :: 32 word)) :: byte) = ucast (drop_bit 24 n)"
  "(ucast (ucast (n :: 64 word) :: 32 word) :: byte) = ucast n"
  by (rule bit_word_eqI; auto simp: bit_simps)+

lemma nonneg_sint_less:
  assumes "0 \<le> sint (n :: 64 word)"
  shows "sint n < 16 \<longleftrightarrow> unat n \<le> 15"
    and "sint n < 32 \<longleftrightarrow> unat n \<le> 31"
    and "sint n < 256 \<longleftrightarrow> unat n \<le> 255"
    and "sint n < 65536 \<longleftrightarrow> unat n \<le> 65535"
    and "sint n < 4294967296 \<longleftrightarrow> unat n < 4294967296"
  using assms nonneg_sint_unat [OF assms] by linarith+

lemmas run_defs = emitted_def Write_def sink_write_def accepting_def NewEncoder_def and_then_def

lemma emitted_WriteArrayHeader:
  assumes "0 \<le> sint n"
  shows "emitted (\<lambda>enc. WriteArrayHeader enc n) = array_header (nat (sint n))"
proof (cases "n = 0")
  case True
  then show ?thesis
    by (simp add: run_defs WriteArrayHeader_def consts_defs array_header_def)
next
  case False
  then have nz: "unat n \<noteq> 0" by (simp add: unat_eq_0)
  have "emitted (\<lambda>enc. WriteArrayHeader enc n) = array_header (unat n)"
    using False nz
    by (simp add: run_defs WriteArrayHeader_def consts_defs word_sless_alt
        nonneg_sint_less [OF assms] array_header_def byte1 byte2 byte3 via16 via16_0 via32)
  then show ?thesis by (simp only: nonneg_sint_unat [OF assms])
qed

lemma emitted_WriteMapHeader:
  assumes "0 \<le> sint n"
  shows "emitted (\<lambda>enc. WriteMapHeader enc n) = map_header (nat (sint n))"
proof (cases "n = 0")
  case True
  then show ?thesis
    by (simp add: run_defs WriteMapHeader_def consts_defs map_header_def)
next
  case False
  then have nz: "unat n \<noteq> 0" by (simp add: unat_eq_0)
  have "emitted (\<lambda>enc. WriteMapHeader enc n) = map_header (unat n)"
    using False nz
    by (simp add: run_defs WriteMapHeader_def consts_defs word_sless_alt
        nonneg_sint_less [OF assms] map_header_def byte1 byte2 byte3 via16 via16_0 via32)
  then show ?thesis by (simp only: nonneg_sint_unat [OF assms])
qed

lemma emitted_WriteStringHeader:
  assumes "0 \<le> sint n"
  shows "emitted (\<lambda>enc. WriteStringHeader enc n) = string_header (nat (sint n))"
proof -
  have "emitted (\<lambda>enc. WriteStringHeader enc n) = string_header (unat n)"
    by (simp add: run_defs WriteStringHeader_def consts_defs word_sless_alt
        nonneg_sint_less [OF assms] string_header_def byte1 byte2 byte3 via16 via16_0 via32)
  then show ?thesis by (simp only: nonneg_sint_unat [OF assms])
qed

subsection \<open>The integer family on an accepting writer\<close>

lemmas cmp_defs = word_sless_alt word_sle_eq word_le_def
























section \<open>Sticky error on a failed write\<close>

text \<open>
  Claim C1: when the writer fails during an encoding call on an encoder without a prior
  error, the error is captured on that encoder and every later call returns it and
  writes nothing, until \<^verbatim>\<open>ResetError\<close>.

  The code does not do this.  On the encoder variable 0 of \<open>rejecting\<close>, whose writer
  fails every write, \<^verbatim>\<open>Write(byte(1))\<close> returns the writer's error, but the variable's
  \<^verbatim>\<open>err\<close> field is still \<^verbatim>\<open>nil\<close> afterwards (the method assigned to its own copy
  of the receiver), and a second call \<^verbatim>\<open>Write(byte(2))\<close> on the same variable
  reaches the writer again.
\<close>

theorem write_failure_not_retained:
  "fst (Write (encoders rejecting 0) (VUint8 1) rejecting) = Return (Some (WriterError 1)) \<and>
   err (encoders (snd (Write (encoders rejecting 0) (VUint8 1) rejecting)) 0) = None \<and>
   (let w1 = snd (Write (encoders rejecting 0) (VUint8 1) rejecting)
    in written (snd (Write (encoders w1 0) (VUint8 2) w1)) 0 = [[1], [2]])"
  by (simp add: Write_def sink_write_def rejecting_def NewEncoder_def)

section \<open>A failed array header\<close>

text \<open>
  Claim C3: when the header write of \<^verbatim>\<open>EncodeArray\<close> is rejected by the writer,
  \<^verbatim>\<open>EncodeArray\<close> returns that error at once and the item encoder is never invoked.

  The code does not do this.  In \<open>flaky\<close> the first write (the header \<^verbatim>\<open>0x91\<close>) is
  rejected; \<^verbatim>\<open>WriteArrayHeader\<close> still returns the \<^verbatim>\<open>nil\<close> of its receiver copy, the
  item encoder runs and writes the item \<^verbatim>\<open>0x01\<close>, and \<^verbatim>\<open>EncodeArray\<close> returns
  \<^verbatim>\<open>nil\<close>.
\<close>

theorem EncodeArray_items_after_failed_header:
  "EncodeArray VInt (NewEncoder 0) [1] None flaky =
     (Return None, flaky\<lparr>written := (written flaky)(0 := [[0x91], [0x01]])\<rparr>)"
  by (simp add: EncodeArray_def EncodeArray_with_def WriteArrayHeader_def EncodeInt_def
      Write_def sink_write_def flaky_def NewEncoder_def consts_defs word_sless_alt word_sle_eq)

section \<open>The tag of the 16-bit unsigned tier\<close>

text \<open>
  Claim C4: an unsigned integer from 256 to 65535 is encoded as the tag \<^verbatim>\<open>0xcd\<close>
  followed by its two big-endian bytes, and the tags of the four unsigned tiers are
  pairwise distinct.

  The code does not do this.  \<^verbatim>\<open>EncodeUint16(256)\<close> and \<^verbatim>\<open>EncodeInt(256)\<close> emit
  \<^verbatim>\<open>0xcc 0x01 0x00\<close>: the constant \<^verbatim>\<open>typeUint16\<close> has the value of
  \<^verbatim>\<open>typeUint8\<close>, and the constants of the 32-bit and 64-bit tiers are \<^verbatim>\<open>0xcd\<close>
  and \<^verbatim>\<open>0xce\<close>.
\<close>

theorem uint16_tag_is_uint8_tag:
  "emitted (\<lambda>enc. EncodeUint16 enc 256) = [0xcc, 0x01, 0x00] \<and>
   emitted (\<lambda>enc. EncodeInt enc 256) = [0xcc, 0x01, 0x00] \<and>
   emitted (\<lambda>enc. EncodeUint32 enc 65536) = [0xcd, 0x00, 0x01, 0x00, 0x00] \<and>
   typeUint8 = 0xcc \<and> typeUint16 = 0xcc \<and> typeUint32 = 0xcd \<and> typeUint64 = 0xce"
  by (simp add: emitted_def EncodeUint16_def EncodeUint32_def EncodeInt_def Write_def
      sink_write_def accepting_def NewEncoder_def consts_defs cmp_defs)

section \<open>Dynamic dispatch on floats\<close>

text \<open>
  Claim C8: \<^verbatim>\<open>Encode(v)\<close> recognises a 32-bit or 64-bit float and delegates to the
  float encoder of that width.

  The code does not do this.  The type switch of \<^verbatim>\<open>Encode\<close> has no float case: for
  every encoder and state, a float of either width panics with
  \<^verbatim>\<open>ErrUnsupportedType\<close> and nothing is written.
\<close>

theorem Encode_float_unsupported:
  "Encode enc (VFloat32 f) w = (Panic ErrUnsupportedType, w) \<and>
   Encode enc (VFloat64 g) w = (Panic ErrUnsupportedType, w)"
  by simp

section \<open>Scoped retargeting\<close>

text \<open>
  Claim C9: \<^verbatim>\<open>Using(dest, fn)\<close> restores the encoder's original writer on every exit
  path, whether \<^verbatim>\<open>fn\<close> returns \<^verbatim>\<open>nil\<close>, returns an error or panics; the error
  returned by \<^verbatim>\<open>fn\<close> becomes the encoder's \<^verbatim>\<open>err\<close> field and is returned by
  \<^verbatim>\<open>Using\<close>.  A panic of \<^verbatim>\<open>fn\<close> passes through \<^verbatim>\<open>Using\<close>.
\<close>

theorem Using_restores_writer:
  "out (encoders (snd (Using p dest fn w)) p) = out (encoders w p) \<and>
   (case fn (SetWriter p dest w) of
      (Return e, _) \<Rightarrow>
        fst (Using p dest fn w) = Return e \<and> err (encoders (snd (Using p dest fn w)) p) = e
    | (Panic x, _) \<Rightarrow> fst (Using p dest fn w) = Panic x)"
  by (simp add: Using_def SetWriter_def Let_def split: prod.split outcome.split)

text \<open>
  The scenario of the repository's test of \<^verbatim>\<open>Using\<close>: the closure encodes 1492
  through the encoder and returns an error.  The bytes reach the temporary writer 1 only,
  and the encoder is back on writer 0 with the closure's error.  A closure that panics
  leaves the encoder on writer 0 as well.
\<close>

theorem Using_restores_writer_witness:
  "fst (Using 0 1
      (\<lambda>w. and_then (Encode (encoders w 0) (VInt 1492) w) (\<lambda>w. (Return (Some (WriterError 9)), w)))
      accepting) = Return (Some (WriterError 9)) \<and>
   encoders (snd (Using 0 1
      (\<lambda>w. and_then (Encode (encoders w 0) (VInt 1492) w) (\<lambda>w. (Return (Some (WriterError 9)), w)))
      accepting)) 0 = \<lparr>out = 0, err = Some (WriterError 9)\<rparr> \<and>
   written (snd (Using 0 1
      (\<lambda>w. and_then (Encode (encoders w 0) (VInt 1492) w) (\<lambda>w. (Return (Some (WriterError 9)), w)))
      accepting)) 1 = [[0xcc], [0x05, 0xd4]] \<and>
   written (snd (Using 0 1
      (\<lambda>w. and_then (Encode (encoders w 0) (VInt 1492) w) (\<lambda>w. (Return (Some (WriterError 9)), w)))
      accepting)) 0 = [] \<and>
   fst (Using 0 1 (\<lambda>w. Encode (encoders w 0) VOther w) accepting) = Panic ErrUnsupportedType \<and>
   out (encoders (snd (Using 0 1 (\<lambda>w. Encode (encoders w 0) VOther w) accepting)) 0) = 0"
  using
    Using_restores_writer [of 0 1
      "\<lambda>w. and_then (Encode (encoders w 0) (VInt 1492) w) (\<lambda>w. (Return (Some (WriterError 9)), w))"
      accepting]
    Using_restores_writer [of 0 1 "\<lambda>w. Encode (encoders w 0) VOther w" accepting]
  by (simp add: Using_def SetWriter_def EncodeInt_def Write_def sink_write_def accepting_def
      NewEncoder_def consts_defs cmp_defs)

section \<open>Encoders are passed by value\<close>

text \<open>
  Claim C10: every method with a value receiver (\<^verbatim>\<open>Write\<close>, \<^verbatim>\<open>Encode\<close>,
  \<^verbatim>\<open>EncodeString\<close>, the integer family, the header writers, \<^verbatim>\<open>EncodeBool\<close>,
  \<^verbatim>\<open>EncodeBytes\<close>, the float encoders) and the functions \<^verbatim>\<open>EncodeArray\<close> and
  \<^verbatim>\<open>EncodeMap\<close> leave the \<^verbatim>\<open>Encoder\<close> variables of the caller as they were,
  whatever the writer answers; only the pointer-receiver methods change one
  (\<^verbatim>\<open>ResetError\<close> and \<^verbatim>\<open>SetWriter\<close> are listed here, \<^verbatim>\<open>Using\<close> is the
  subject of claim C9).  An item encoder passed by the caller is a closure of the caller:
  the container encoders change no variable when that closure changes none.
\<close>

theorem value_receivers_keep_encoders:
  "encoders (snd (Write enc b w)) = encoders w \<and>
   encoders (snd (Encode enc v w)) = encoders w \<and>
   encoders (snd (EncodeString enc s w)) = encoders w \<and>
   encoders (snd (EncodeFixedInt enc i w)) = encoders w \<and>
   encoders (snd (EncodeInt enc i w)) = encoders w \<and>
   encoders (snd (EncodeInt8 enc ib w)) = encoders w \<and>
   encoders (snd (EncodeInt16 enc ih w)) = encoders w \<and>
   encoders (snd (EncodeInt32 enc iw w)) = encoders w \<and>
   encoders (snd (EncodeInt64 enc i w)) = encoders w \<and>
   encoders (snd (EncodeUint enc i w)) = encoders w \<and>
   encoders (snd (EncodeUint8 enc ib w)) = encoders w \<and>
   encoders (snd (EncodeUint16 enc ih w)) = encoders w \<and>
   encoders (snd (EncodeUint32 enc iw w)) = encoders w \<and>
   encoders (snd (EncodeUint64 enc i w)) = encoders w \<and>
   encoders (snd (WriteArrayHeader enc i w)) = encoders w \<and>
   encoders (snd (WriteMapHeader enc i w)) = encoders w \<and>
   encoders (snd (WriteStringHeader enc i w)) = encoders w \<and>
   encoders (snd (EncodeBool enc t w)) = encoders w \<and>
   encoders (snd (EncodeBytes enc bs w)) = encoders w \<and>
   encoders (snd (EncodeFloat32 enc iw w)) = encoders w \<and>
   encoders (snd (EncodeFloat64 enc i w)) = encoders w \<and>
   encoders (snd (EncodeArray box enc xs None w)) = encoders w \<and>
   encoders (snd (EncodeMap boxk boxv enc m None w)) = encoders w \<and>
   ((\<forall>e x w. encoders (snd (f e x w)) = encoders w) \<longrightarrow>
      encoders (snd (EncodeArray box enc xs (Some f) w)) = encoders w) \<and>
   ((\<forall>e k x w. encoders (snd (g e k x w)) = encoders w) \<longrightarrow>
      encoders (snd (EncodeMap boxk boxv enc m (Some g) w)) = encoders w) \<and>
   encoders (snd (ResetError p w)) = (encoders w)(p := (encoders w p)\<lparr>err := None\<rparr>) \<and>
   encoders (SetWriter p d w) = (encoders w)(p := (encoders w p)\<lparr>out := d\<rparr>)"
  by (simp add: EncodeArray_Some_encoders EncodeMap_Some_encoders ResetError_def SetWriter_def)

theorem value_receivers_keep_encoders_witness:
  "(\<forall>e x w. encoders (snd (EncodeInt e x w)) = encoders w) \<and>
   (\<forall>e k x w. encoders (snd (and_then (EncodeInt e k w) (\<lambda>w. EncodeInt e x w))) = encoders w) \<and>
   fst (Write (encoders rejecting 0) (VUint8 1) rejecting) = Return (Some (WriterError 1)) \<and>
   encoders (snd (Write (encoders rejecting 0) (VUint8 1) rejecting)) = encoders rejecting \<and>
   encoders (snd (EncodeArray VInt (encoders rejecting 0) [1, 2]
       (Some (\<lambda>e x. EncodeInt e x)) rejecting)) = encoders rejecting \<and>
   encoders (snd (EncodeMap VInt VInt (encoders rejecting 0) [(1, 2)]
       (Some (\<lambda>e k x w. and_then (EncodeInt e k w) (\<lambda>w. EncodeInt e x w))) rejecting)) =
     encoders rejecting"
proof -
  have a: "\<forall>e x w. encoders (snd (EncodeInt e x w)) = encoders w" by simp
  have b: "\<forall>e k x w. encoders (snd (and_then (EncodeInt e k w) (\<lambda>w. EncodeInt e x w))) = encoders w"
    by (auto intro!: and_then_encoders)
  have c: "fst (Write (encoders rejecting 0) (VUint8 1) rejecting) = Return (Some (WriterError 1))"
    by (simp add: Write_def sink_write_def rejecting_def NewEncoder_def)
  show ?thesis
    using a b c
      value_receivers_keep_encoders [where enc = "encoders rejecting 0" and b = "VUint8 1"
        and w = rejecting and box = VInt and xs = "[1, 2]" and boxk = VInt and boxv = VInt
        and m = "[(1, 2)]" and f = "\<lambda>e x. EncodeInt e x"
        and g = "\<lambda>e k x w. and_then (EncodeInt e k w) (\<lambda>w. EncodeInt e x w)"]
    by blast
qed

section \<open>Behaviour while the error is set\<close>

text \<open>
  Claim C2, as amended: on an encoder whose \<^verbatim>\<open>err\<close> field is set, every encoding
  operation leaves the state untouched (no writer is called) and returns that error,
  except that \<^verbatim>\<open>Encode\<close> on a value of an unsupported type and
  \<^verbatim>\<open>EncodeFixedInt\<close> on a value outside -32..127 panic instead, also without
  writing.
\<close>

theorem sticky_error_blocks_output:
  assumes "err enc = Some e"
  shows "Write enc b w = (Return (Some e), w) \<and>
    Encode enc v w =
      (if supported v then (Return (Some e), w) else (Panic ErrUnsupportedType, w)) \<and>
    EncodeFixedInt enc i w =
      (if - 32 \<le> sint i \<and> sint i \<le> 127 then (Return (Some e), w)
       else (Panic ErrValueOutOfRange, w)) \<and>
    EncodeInt enc i w = (Return (Some e), w) \<and>
    EncodeInt8 enc ib w = (Return (Some e), w) \<and>
    EncodeInt16 enc ih w = (Return (Some e), w) \<and>
    EncodeInt32 enc iw w = (Return (Some e), w) \<and>
    EncodeInt64 enc i w = (Return (Some e), w) \<and>
    EncodeUint enc i w = (Return (Some e), w) \<and>
    EncodeUint8 enc ib w = (Return (Some e), w) \<and>
    EncodeUint16 enc ih w = (Return (Some e), w) \<and>
    EncodeUint32 enc iw w = (Return (Some e), w) \<and>
    EncodeUint64 enc i w = (Return (Some e), w) \<and>
    EncodeBool enc t w = (Return (Some e), w) \<and>
    EncodeBytes enc bs w = (Return (Some e), w) \<and>
    EncodeFloat32 enc iw w = (Return (Some e), w) \<and>
    EncodeFloat64 enc i w = (Return (Some e), w) \<and>
    EncodeString enc s w = (Return (Some e), w) \<and>
    WriteArrayHeader enc i w = (Return (Some e), w) \<and>
    WriteMapHeader enc i w = (Return (Some e), w) \<and>
    WriteStringHeader enc i w = (Return (Some e), w) \<and>
    EncodeArray box enc xs fn w = (Return (Some e), w) \<and>
    EncodeMap boxk boxv enc m fm w = (Return (Some e), w)"
  using assms
  by (simp add: sticky_Encode sticky_EncodeFixedInt sticky_ints sticky_scalars sticky_headers
      EncodeArray_def sticky_EncodeArray_with EncodeMap_def)

theorem sticky_error_blocks_output_witness:
  "err \<lparr>out = 0, err = Some (WriterError 7)\<rparr> = Some (WriterError 7) \<and>
   Write \<lparr>out = 0, err = Some (WriterError 7)\<rparr> (VUint8 1) accepting =
     (Return (Some (WriterError 7)), accepting) \<and>
   Encode \<lparr>out = 0, err = Some (WriterError 7)\<rparr> (VInts [1, 2]) accepting =
     (Return (Some (WriterError 7)), accepting) \<and>
   EncodeFixedInt \<lparr>out = 0, err = Some (WriterError 7)\<rparr> 5 accepting =
     (Return (Some (WriterError 7)), accepting) \<and>
   EncodeArray VInt \<lparr>out = 0, err = Some (WriterError 7)\<rparr> [1, 2] None accepting =
     (Return (Some (WriterError 7)), accepting)"
  using sticky_error_blocks_output [where enc = "\<lparr>out = 0, err = Some (WriterError 7)\<rparr>"
      and e = "WriterError 7" and w = accepting and b = "VUint8 1" and v = "VInts [1, 2]"
      and i = 5 and box = VInt and xs = "[1, 2]" and fn = None and ib = 0 and ih = 0
      and iw = 0 and t = True and bs = None and s = "[]" and boxk = VInt and boxv = VInt
      and m = "[]" and fm = None]
  by simp

text \<open>
  Claim C2 as stated fails: with the error set, \<^verbatim>\<open>EncodeFixedInt(-33)\<close> and
  \<^verbatim>\<open>Encode\<close> of a value of unsupported type do not return the error, they
  panic.
\<close>

theorem sticky_error_panic_counterexample:
  "fst (EncodeFixedInt \<lparr>out = 0, err = Some (WriterError 7)\<rparr> (- 33) accepting) =
     Panic ErrValueOutOfRange \<and>
   fst (EncodeFixedInt \<lparr>out = 0, err = Some (WriterError 7)\<rparr> (- 33) accepting) \<noteq>
     Return (Some (WriterError 7)) \<and>
   fst (Encode \<lparr>out = 0, err = Some (WriterError 7)\<rparr> VOther accepting) \<noteq>
     Return (Some (WriterError 7))"
  by (simp add: EncodeFixedInt_def consts_defs word_sless_alt)

section \<open>The fixed-int-only encoder\<close>

text \<open>
  Claim C7: for \<^verbatim>\<open>i\<close> within -32..127, \<^verbatim>\<open>EncodeFixedInt(i)\<close> is the call
  \<^verbatim>\<open>Write(byte(i))\<close>, whose byte is the fixint encoding of \<^verbatim>\<open>i\<close>: on an encoder
  without error exactly that one byte is offered to the writer and the writer's answer is
  returned.  Outside the range the call panics with \<^verbatim>\<open>ErrValueOutOfRange\<close>, which is
  not a returned error, and the state is untouched.
\<close>

theorem EncodeFixedInt_range:
  "(- 32 \<le> sint i \<and> sint i \<le> 127 \<longrightarrow>
      EncodeFixedInt enc i w = Write enc (VUint8 (ucast i)) w \<and>
      fixint_value (ucast i) = Some (sint i) \<and>
      (err enc = None \<longrightarrow>
         EncodeFixedInt enc i w =
           (Return (respond w (out enc) (written w (out enc)) [ucast i]),
            w\<lparr>written := (written w)(out enc := written w (out enc) @ [[ucast i]])\<rparr>))) \<and>
   (sint i < - 32 \<or> 127 < sint i \<longrightarrow> EncodeFixedInt enc i w = (Panic ErrValueOutOfRange, w))"
  by (auto simp: EncodeFixedInt_def consts_defs word_sless_alt fixint_value_in_range
      Write_def sink_write_def)

theorem EncodeFixedInt_range_witness:
  "- 32 \<le> sint (- 32 :: 64 word) \<and> sint (- 32 :: 64 word) \<le> 127 \<and>
   err (NewEncoder 0) = None \<and>
   EncodeFixedInt (NewEncoder 0) (- 32) accepting =
     (Return None, accepting\<lparr>written := (written accepting)(0 := [[0xe0]])\<rparr>) \<and>
   fixint_value 0xe0 = Some (- 32) \<and>
   (sint (128 :: 64 word) < - 32 \<or> 127 < sint (128 :: 64 word)) \<and>
   EncodeFixedInt (NewEncoder 0) 128 rejecting = (Panic ErrValueOutOfRange, rejecting)"
proof -
  have b: "(ucast (- 32 :: 64 word) :: 8 word) = 0xe0" by simp
  show ?thesis
    using EncodeFixedInt_range [of "- 32" "NewEncoder 0" accepting]
      EncodeFixedInt_range [of 128 "NewEncoder 0" rejecting]
    unfolding b by (simp add: NewEncoder_def accepting_def Write_def sink_write_def)
qed

section \<open>Headers and the tier table\<close>

text \<open>
  Claim C5, as amended: for every length \<open>n\<close> with \<open>0 \<le> n < 2^32\<close>, the headers
  written by \<^verbatim>\<open>WriteArrayHeader\<close>, \<^verbatim>\<open>WriteMapHeader\<close> and
  \<^verbatim>\<open>WriteStringHeader\<close> are those of the tier table of section 4.2, and reading the
  tag and length bytes back gives \<open>n\<close>.
\<close>

theorem headers_follow_tier_table:
  assumes "0 \<le> sint n" and "sint n < 4294967296"
  shows "emitted (\<lambda>enc. WriteArrayHeader enc n) = array_header (nat (sint n)) \<and>
    decode_array_header (emitted (\<lambda>enc. WriteArrayHeader enc n)) = Some (nat (sint n)) \<and>
    emitted (\<lambda>enc. WriteMapHeader enc n) = map_header (nat (sint n)) \<and>
    decode_map_header (emitted (\<lambda>enc. WriteMapHeader enc n)) = Some (nat (sint n)) \<and>
    emitted (\<lambda>enc. WriteStringHeader enc n) = string_header (nat (sint n)) \<and>
    decode_string_header (emitted (\<lambda>enc. WriteStringHeader enc n)) = Some (nat (sint n))"
proof -
  from assms have k: "nat (sint n) < 4294967296" by simp
  show ?thesis
    by (simp only: emitted_WriteArrayHeader [OF assms(1)] emitted_WriteMapHeader [OF assms(1)]
        emitted_WriteStringHeader [OF assms(1)] decode_array_header_roundtrip [OF k]
        decode_map_header_roundtrip [OF k] decode_string_header_roundtrip [OF k] simp_thms)
qed

theorem headers_follow_tier_table_witness:
  "0 \<le> sint (65536 :: 64 word) \<and> sint (65536 :: 64 word) < 4294967296 \<and>
   emitted (\<lambda>enc. WriteArrayHeader enc 65536) = [0xdd, 0x00, 0x01, 0x00, 0x00] \<and>
   decode_array_header (emitted (\<lambda>enc. WriteArrayHeader enc 65536)) = Some 65536 \<and>
   emitted (\<lambda>enc. WriteMapHeader enc 65536) = [0xdf, 0x00, 0x01, 0x00, 0x00] \<and>
   decode_map_header (emitted (\<lambda>enc. WriteMapHeader enc 65536)) = Some 65536 \<and>
   emitted (\<lambda>enc. WriteStringHeader enc 65536) = [0xdb, 0x00, 0x01, 0x00, 0x00] \<and>
   decode_string_header (emitted (\<lambda>enc. WriteStringHeader enc 65536)) = Some 65536 \<and>
   emitted (\<lambda>enc. WriteArrayHeader enc 0) = [0x90] \<and>
   emitted (\<lambda>enc. WriteArrayHeader enc 15) = [0x9f] \<and>
   emitted (\<lambda>enc. WriteArrayHeader enc 16) = [0xdc, 0x00, 0x10] \<and>
   emitted (\<lambda>enc. WriteMapHeader enc 65535) = [0xde, 0xff, 0xff] \<and>
   emitted (\<lambda>enc. WriteStringHeader enc 31) = [0xbf] \<and>
   emitted (\<lambda>enc. WriteStringHeader enc 32) = [0xd9, 0x20] \<and>
   emitted (\<lambda>enc. WriteStringHeader enc 255) = [0xd9, 0xff] \<and>
   emitted (\<lambda>enc. WriteStringHeader enc 256) = [0xda, 0x01, 0x00]"
  using headers_follow_tier_table [of 65536] headers_follow_tier_table [of 0]
    headers_follow_tier_table [of 15] headers_follow_tier_table [of 16]
    headers_follow_tier_table [of 65535] headers_follow_tier_table [of 31]
    headers_follow_tier_table [of 32] headers_follow_tier_table [of 255]
    headers_follow_tier_table [of 256]
  by (simp add: array_header_def map_header_def string_header_def be_nat_def)

text \<open>
  Claim C5 as stated, for every non-negative \<^verbatim>\<open>int\<close>, fails from \<open>2^32\<close> on: the
  32-bit tier keeps the low 32 bits of the length.  \<^verbatim>\<open>WriteArrayHeader(1 << 32)\<close>
  writes a header that declares 0 elements.
\<close>

theorem header_length_truncated_counterexample:
  "0 \<le> sint (4294967296 :: 64 word) \<and>
   emitted (\<lambda>enc. WriteArrayHeader enc 4294967296) = [0xdd, 0x00, 0x00, 0x00, 0x00] \<and>
   decode_array_header (emitted (\<lambda>enc. WriteArrayHeader enc 4294967296)) \<noteq> Some 4294967296"
  by (simp add: run_defs WriteArrayHeader_def consts_defs word_sless_alt be_nat_def)

section \<open>Lengths of the integer encodings\<close>




end
